theory Spec2Isabelle
  imports Complex_Main
begin

section \<open>The Hermes2D mesh engine (hermes2d/src/mesh/mesh.cpp)\<close>

text \<open>
  A shallow embedding of the adaptive mesh of Hermes2D. Pointers to nodes and elements
  are the ids of the slots they point to (the slot arrays never move an item, so a
  pointer and an id name the same thing). Exceptions are values of \<open>error\<close>; a
  function that can throw returns \<open>error + 'a\<close> and the state reached at the moment
  of a throw is not returned. The C \<open>int\<close> counters are unbounded integers, the
  \<open>unsigned\<close> sequence numbers are integers reduced modulo \<open>2 ^ 32\<close>, and the \<open>double\<close>
  coordinates are exact rationals (the code only adds, halves, divides by three and
  compares them).
\<close>

subsection \<open>Errors\<close>

datatype error =
    Exception string "int list"
  | MeshLoadFailureException string "int list"
  | CurvedException int
  | AssertionFailure
  | NullPointer
  | OutOfBounds

definition ebind :: "error + 'a \<Rightarrow> ('a \<Rightarrow> error + 'b) \<Rightarrow> error + 'b" where
  "ebind r f = (case r of Inl err \<Rightarrow> Inl err | Inr v \<Rightarrow> f v)"

subsection \<open>Data model\<close>

datatype node_type = HERMES_TYPE_VERTEX | HERMES_TYPE_EDGE

text \<open>
  Modelled from the spec: the declaration of \<open>Node\<close> (mesh.h is absent). A vertex
  node carries coordinates, an edge node a boundary marker and up to two back-references
  to elements; both carry the hash key \<open>(p1, p2)\<close>, a boundary flag, a reference count
  and the usage flag of their array slot.
\<close>

record Node =
  n_used :: bool
  n_type :: node_type
  n_ref :: int
  n_bnd :: int
  n_p1 :: int
  n_p2 :: int
  n_x :: rat
  n_y :: rat
  n_marker :: int
  n_elem :: "nat option list"

text \<open>
  Modelled from the spec: \<open>CurvMap\<close>, the curved-geometry collaborator, which the mesh
  invokes opaquely. A map is what the mesh can observe of it: the physical points it
  returns for reference points (\<open>get_mid_edge_points\<close>, given the vertex coordinates of
  its element), the map of each son part (\<open>create_son_curv_map\<close>), and the map that
  the arc-halving code of \<open>refine_triangle_to_quads\<close> builds for each of the three
  quads (null where it builds none). The coefficients that \<open>update_refmap_coeffs\<close>
  recomputes are internal to the map and have no counterpart here.
\<close>

codatatype CurvMap = CurvMap
  (get_mid_edge_points: "(rat \<times> rat) list \<Rightarrow> rat \<times> rat \<Rightarrow> rat \<times> rat")
  (create_son_curv_map: "nat \<Rightarrow> CurvMap")
  (arc_son_curv_map: "nat \<Rightarrow> CurvMap option")

text \<open>
  Modelled from the spec: the declaration of \<open>Element\<close>. \<open>e_vn\<close> and \<open>e_en\<close>
  hold the \<open>e_nvert\<close> initialised entries of the vertex and edge arrays, \<open>e_sons\<close>
  the four son slots.
\<close>

record Element =
  e_used :: bool
  e_active :: bool
  e_marker :: int
  e_nvert :: nat
  e_iro_cache :: int
  e_cm :: "CurvMap option"
  e_parent :: "nat option"
  e_visited :: bool
  e_vn :: "nat list"
  e_en :: "nat list"
  e_sons :: "nat option list"

record MarkersConversion =
  conversion_table :: "(int \<times> string) list"
  conversion_table_inverse :: "(string \<times> int) list"
  min_marker_unused :: int

text \<open>
  The mesh with its node table and element store. \<open>nodes_unused\<close> and
  \<open>elements_unused\<close> are the stacks of freed slots of the two arrays (top first),
  \<open>g_mesh_seq\<close> is the global counter of the translation unit, and \<open>parents\<close> is the
  array that \<open>regularize\<close> allocates: a cell that was never written holds \<open>None\<close>.
\<close>

record Mesh =
  nodes :: "Node list"
  nodes_unused :: "nat list"
  elements :: "Element list"
  elements_unused :: "nat list"
  nbase :: int
  nactive :: int
  ntopvert :: int
  ninitial :: int
  seq :: int
  g_mesh_seq :: int
  refinements :: "(nat \<times> int) list"
  parents :: "nat \<Rightarrow> int option"
  parents_size :: nat
  element_markers_conversion :: MarkersConversion
  boundary_markers_conversion :: MarkersConversion

definition TOP_LEVEL_REF :: int where
  "TOP_LEVEL_REF = 123456"

definition is_triangle :: "Element \<Rightarrow> bool" where
  "is_triangle e = (e_nvert e = 3)"

definition is_curved :: "Element \<Rightarrow> bool" where
  "is_curved e = (case e_cm e of None \<Rightarrow> False | Some c \<Rightarrow> True)"

definition next_vert :: "Element \<Rightarrow> nat \<Rightarrow> nat" where
  "next_vert e i = (if i + 1 < e_nvert e then i + 1 else 0)"

definition prev_vert :: "Element \<Rightarrow> nat \<Rightarrow> nat" where
  "prev_vert e i = (if 0 < i then i - 1 else e_nvert e - 1)"

subsection \<open>The slot arrays\<close>

text \<open>
  Modelled from the spec: \<open>Array\<close> (absent), a stable-id slot array with append and
  logical removal. \<open>add\<close> reuses the slot freed last, if there is one, and marks it
  used without touching its other fields; otherwise it appends a slot. \<open>remove\<close>
  clears the usage flag and pushes the id.
\<close>

definition new_Node :: Node where
  "new_Node = \<lparr>n_used = True, n_type = HERMES_TYPE_VERTEX, n_ref = 0, n_bnd = 0,
     n_p1 = 0, n_p2 = 0, n_x = 0, n_y = 0, n_marker = 0, n_elem = [None, None]\<rparr>"

definition new_Element :: Element where
  "new_Element = \<lparr>e_used = True, e_active = False, e_marker = 0, e_nvert = 0,
     e_iro_cache = 0, e_cm = None, e_parent = None, e_visited = False,
     e_vn = [], e_en = [], e_sons = [None, None, None, None]\<rparr>"

definition nodes_add :: "Mesh \<Rightarrow> nat \<times> Mesh" where
  "nodes_add m = (case nodes_unused m of
       [] \<Rightarrow> (length (nodes m), m\<lparr>nodes := nodes m @ [new_Node]\<rparr>)
     | i # rest \<Rightarrow> (i, m\<lparr>nodes := (nodes m)[i := (nodes m ! i)\<lparr>n_used := True\<rparr>],
                          nodes_unused := rest\<rparr>))"

definition nodes_remove :: "nat \<Rightarrow> Mesh \<Rightarrow> Mesh" where
  "nodes_remove i m = m\<lparr>nodes := (nodes m)[i := (nodes m ! i)\<lparr>n_used := False\<rparr>],
                        nodes_unused := i # nodes_unused m\<rparr>"

definition elements_add :: "Mesh \<Rightarrow> nat \<times> Mesh" where
  "elements_add m = (case elements_unused m of
       [] \<Rightarrow> (length (elements m), m\<lparr>elements := elements m @ [new_Element]\<rparr>)
     | i # rest \<Rightarrow> (i, m\<lparr>elements := (elements m)[i := (elements m ! i)\<lparr>e_used := True\<rparr>],
                          elements_unused := rest\<rparr>))"

definition elements_remove :: "nat \<Rightarrow> Mesh \<Rightarrow> Mesh" where
  "elements_remove i m = m\<lparr>elements := (elements m)[i := (elements m ! i)\<lparr>e_used := False\<rparr>],
                           elements_unused := i # elements_unused m\<rparr>"

subsection \<open>The node hash table\<close>

text \<open>
  Modelled from the spec: \<open>HashTable\<close> (absent). A node created by \<open>get_vertex_node\<close>
  or \<open>get_edge_node\<close> is keyed by the unordered pair of vertex ids it was asked for;
  the table holds the used nodes with such a key, so a lookup is a search of the node
  array for a used node of the right kind with the ordered key. \<open>peek\<close> returns null
  when there is none, \<open>get\<close> allocates one: reference count and boundary flag zero, a
  vertex node at the mid-point of its two vertices, an edge node with marker zero and no
  element, as the node initialisers at lines 480-508 of mesh.cpp set them.
\<close>

fun search_list :: "(Node \<Rightarrow> bool) \<Rightarrow> Node list \<Rightarrow> nat \<Rightarrow> nat option" where
  "search_list P [] i = None"
| "search_list P (n # ns) i = (if P n then Some i else search_list P ns (Suc i))"

definition has_key :: "node_type \<Rightarrow> nat \<Rightarrow> nat \<Rightarrow> Node \<Rightarrow> bool" where
  "has_key t p1 p2 n =
     (n_used n \<and> n_type n = t \<and> n_p1 n = int (min p1 p2) \<and> n_p2 n = int (max p1 p2))"

definition peek_vertex_node :: "Mesh \<Rightarrow> nat \<Rightarrow> nat \<Rightarrow> nat option" where
  "peek_vertex_node m p1 p2 = search_list (has_key HERMES_TYPE_VERTEX p1 p2) (nodes m) 0"

definition peek_edge_node :: "Mesh \<Rightarrow> nat \<Rightarrow> nat \<Rightarrow> nat option" where
  "peek_edge_node m p1 p2 = search_list (has_key HERMES_TYPE_EDGE p1 p2) (nodes m) 0"

definition set_node :: "nat \<Rightarrow> (Node \<Rightarrow> Node) \<Rightarrow> Mesh \<Rightarrow> Mesh" where
  "set_node i f m = m\<lparr>nodes := (nodes m)[i := f (nodes m ! i)]\<rparr>"

definition set_element :: "nat \<Rightarrow> (Element \<Rightarrow> Element) \<Rightarrow> Mesh \<Rightarrow> Mesh" where
  "set_element i f m = m\<lparr>elements := (elements m)[i := f (elements m ! i)]\<rparr>"

definition get_vertex_node :: "Mesh \<Rightarrow> nat \<Rightarrow> nat \<Rightarrow> nat \<times> Mesh" where
  "get_vertex_node m p1 p2 =
     (case peek_vertex_node m p1 p2 of
        Some i \<Rightarrow> (i, m)
      | None \<Rightarrow>
          (let a = min p1 p2; b = max p1 p2;
               xm = (n_x (nodes m ! a) + n_x (nodes m ! b)) * (1 / 2);
               ym = (n_y (nodes m ! a) + n_y (nodes m ! b)) * (1 / 2);
               (i, m1) = nodes_add m
           in (i, set_node i (\<lambda>n. n\<lparr>n_type := HERMES_TYPE_VERTEX, n_ref := 0, n_bnd := 0,
                                     n_p1 := int a, n_p2 := int b, n_x := xm, n_y := ym\<rparr>) m1)))"

definition get_edge_node :: "Mesh \<Rightarrow> nat \<Rightarrow> nat \<Rightarrow> nat \<times> Mesh" where
  "get_edge_node m p1 p2 =
     (case peek_edge_node m p1 p2 of
        Some i \<Rightarrow> (i, m)
      | None \<Rightarrow>
          (let a = min p1 p2; b = max p1 p2;
               (i, m1) = nodes_add m
           in (i, set_node i (\<lambda>n. n\<lparr>n_type := HERMES_TYPE_EDGE, n_ref := 0, n_bnd := 0,
                                     n_p1 := int a, n_p2 := int b, n_marker := 0,
                                     n_elem := [None, None]\<rparr>) m1)))"

text \<open>
  Modelled from the spec: the reference counting of \<open>Node\<close> and \<open>Element\<close> (absent).
  Referencing a node increments its count, and an edge node stores the element in a free
  one of its two slots. Unreferencing clears the slot and decrements the count; at zero
  the node leaves the table and its slot is freed.
\<close>

definition ref_element :: "nat \<Rightarrow> nat \<Rightarrow> Mesh \<Rightarrow> Mesh" where
  "ref_element i e m =
     set_node i (\<lambda>n.
       (let n1 = (if n_type n = HERMES_TYPE_EDGE then
                    (if n_elem n ! 0 = None then n\<lparr>n_elem := (n_elem n)[0 := Some e]\<rparr>
                     else if n_elem n ! 1 = None then n\<lparr>n_elem := (n_elem n)[1 := Some e]\<rparr>
                     else n)
                  else n)
        in n1\<lparr>n_ref := n_ref n1 + 1\<rparr>)) m"

definition unref_element :: "nat \<Rightarrow> nat \<Rightarrow> Mesh \<Rightarrow> Mesh" where
  "unref_element i e m =
     (let m1 = set_node i (\<lambda>n.
            (let n1 = (if n_type n = HERMES_TYPE_EDGE then
                         (if n_elem n ! 0 = Some e then n\<lparr>n_elem := (n_elem n)[0 := None]\<rparr>
                          else if n_elem n ! 1 = Some e then n\<lparr>n_elem := (n_elem n)[1 := None]\<rparr>
                          else n)
                       else n)
             in n1\<lparr>n_ref := n_ref n1 - 1\<rparr>)) m
      in if n_ref (nodes m1 ! i) = 0 then nodes_remove i m1 else m1)"

definition ref_nodes :: "Element \<Rightarrow> nat \<Rightarrow> nat \<Rightarrow> Mesh \<Rightarrow> Mesh" where
  "ref_nodes el e i m = ref_element (e_en el ! i) e (ref_element (e_vn el ! i) e m)"

definition ref_all_nodes :: "nat \<Rightarrow> Mesh \<Rightarrow> Mesh" where
  "ref_all_nodes e m =
     fold (ref_nodes (elements m ! e) e) [0..<e_nvert (elements m ! e)] m"

definition unref_nodes :: "Element \<Rightarrow> nat \<Rightarrow> nat \<Rightarrow> Mesh \<Rightarrow> Mesh" where
  "unref_nodes el e i m = unref_element (e_en el ! i) e (unref_element (e_vn el ! i) e m)"

definition unref_all_nodes :: "nat \<Rightarrow> Mesh \<Rightarrow> Mesh" where
  "unref_all_nodes e m =
     fold (unref_nodes (elements m ! e) e) [0..<e_nvert (elements m ! e)] m"

subsection \<open>Element creation\<close>

definition create_triangle ::
  "Mesh \<Rightarrow> int \<Rightarrow> nat \<Rightarrow> nat \<Rightarrow> nat \<Rightarrow> CurvMap option \<Rightarrow> error + nat \<times> Mesh" where
  "create_triangle m marker v0 v1 v2 cm =
     (let (e, m1) = elements_add m;
          m2 = set_element e (\<lambda>el. el\<lparr>e_active := True, e_marker := marker, e_nvert := 3,
                 e_iro_cache := 0, e_cm := cm, e_parent := None, e_visited := False\<rparr>) m1;
          n0 = nodes m2 ! v0; n1 = nodes m2 ! v1; n2 = nodes m2 ! v2
      in if v0 = v1 \<or> v1 = v2 \<or> v2 = v0 then
           Inl (MeshLoadFailureException
             ''Some of the vertices of element #%d are identical which is impossible.'' [int e])
         else if n_x n0 = n_x n1 \<and> n_x n0 = n_x n2 then
           Inl (MeshLoadFailureException
             ''Vertices [%i, %i, %i] in element %i share x-coordinates: [%f, %f, %f].''
             [int e, int v0, int v1, int v2])
         else if n_y n0 = n_y n1 \<and> n_y n0 = n_y n2 then
           Inl (MeshLoadFailureException
             ''Vertices [%i, %i, %i] in element %i share y-coordinates: [%f, %f, %f].''
             [int e, int v0, int v1, int v2])
         else
           (let (e0, m3) = get_edge_node m2 v0 v1;
                (e1, m4) = get_edge_node m3 v1 v2;
                (e2, m5) = get_edge_node m4 v2 v0;
                m6 = set_element e (\<lambda>el. el\<lparr>e_vn := [v0, v1, v2], e_en := [e0, e1, e2]\<rparr>) m5
            in Inr (e, ref_all_nodes e m6)))"

definition create_quad ::
  "Mesh \<Rightarrow> int \<Rightarrow> nat \<Rightarrow> nat \<Rightarrow> nat \<Rightarrow> nat \<Rightarrow> CurvMap option \<Rightarrow> error + nat \<times> Mesh" where
  "create_quad m marker v0 v1 v2 v3 cm =
     (let (e, m1) = elements_add m;
          m2 = set_element e (\<lambda>el. el\<lparr>e_active := True, e_marker := marker, e_nvert := 4,
                 e_iro_cache := 0, e_cm := cm, e_parent := None, e_visited := False\<rparr>) m1;
          x0 = n_x (nodes m2 ! v0); x1 = n_x (nodes m2 ! v1);
          x2 = n_x (nodes m2 ! v2); x3 = n_x (nodes m2 ! v3);
          y0 = n_y (nodes m2 ! v0); y1 = n_y (nodes m2 ! v1);
          y2 = n_y (nodes m2 ! v2); y3 = n_y (nodes m2 ! v3)
      in if v0 = v1 \<or> v1 = v2 \<or> v2 = v3 \<or> v3 = v0 \<or> v2 = v0 \<or> v3 = v1 then
           Inl (MeshLoadFailureException
             ''Some of the vertices of element #%d are identical which is not right.'' [int e])
         else if (x0 = x1 \<and> x0 = x2) \<or> (x0 = x1 \<and> x0 = x3) \<or> (x0 = x2 \<and> x0 = x3)
                 \<or> (x1 = x2 \<and> x2 = x3) then
           Inl (MeshLoadFailureException
             ''Some of the vertices [%i, %i, %i, %i] in element %i share x-coordinates: [%f, %f, %f, %f].''
             [int e, int v0, int v1, int v2])
         else if (y0 = y1 \<and> y0 = y2) \<or> (y0 = y1 \<and> y0 = y3) \<or> (y0 = y2 \<and> y0 = y3)
                 \<or> (y1 = y2 \<and> y2 = y3) then
           Inl (MeshLoadFailureException
             ''Some of the vertices [%i, %i, %i, %i] in element %i share y-coordinates: [%f, %f, %f, %f].''
             [int e, int v0, int v1, int v2])
         else
           (let (e0, m3) = get_edge_node m2 v0 v1;
                (e1, m4) = get_edge_node m3 v1 v2;
                (e2, m5) = get_edge_node m4 v2 v3;
                (e3, m6) = get_edge_node m5 v3 v0;
                m7 = set_element e
                       (\<lambda>el. el\<lparr>e_vn := [v0, v1, v2, v3], e_en := [e0, e1, e2, e3]\<rparr>) m6
            in Inr (e, ref_all_nodes e m7)))"

subsection \<open>Refinement\<close>

definition en :: "Mesh \<Rightarrow> nat \<Rightarrow> nat \<Rightarrow> nat" where
  "en m e i = e_en (elements m ! e) ! i"

definition vn :: "Mesh \<Rightarrow> nat \<Rightarrow> nat \<Rightarrow> nat" where
  "vn m e i = e_vn (elements m ! e) ! i"

definition set_bnd :: "nat \<Rightarrow> int \<Rightarrow> Mesh \<Rightarrow> Mesh" where
  "set_bnd i b m = set_node i (\<lambda>n. n\<lparr>n_bnd := b\<rparr>) m"

definition set_marker :: "nat \<Rightarrow> int \<Rightarrow> Mesh \<Rightarrow> Mesh" where
  "set_marker i k m = set_node i (\<lambda>n. n\<lparr>n_marker := k\<rparr>) m"

definition set_bnd_marker :: "nat \<Rightarrow> int \<Rightarrow> int \<Rightarrow> Mesh \<Rightarrow> Mesh" where
  "set_bnd_marker i b k m = set_marker i k (set_bnd i b m)"

definition set_xy :: "nat \<Rightarrow> rat \<times> rat \<Rightarrow> Mesh \<Rightarrow> Mesh" where
  "set_xy i p m = set_node i (\<lambda>n. n\<lparr>n_x := fst p, n_y := snd p\<rparr>) m"

definition son_curv_map :: "CurvMap \<Rightarrow> nat \<Rightarrow> nat \<Rightarrow> CurvMap option" where
  "son_curv_map c k i = Some (create_son_curv_map c (i + k))"

definition coordinates :: "Mesh \<Rightarrow> nat \<Rightarrow> rat \<times> rat" where
  "coordinates m v = (n_x (nodes m ! v), n_y (nodes m ! v))"

definition vertex_coordinates :: "Mesh \<Rightarrow> nat \<Rightarrow> (rat \<times> rat) list" where
  "vertex_coordinates m e =
     map (coordinates m) (e_vn (elements m ! e))"

text \<open>The loop that sets the parent pointer of every non-null son.\<close>

definition set_parent :: "nat \<Rightarrow> nat option \<Rightarrow> Mesh \<Rightarrow> Mesh" where
  "set_parent e s m =
     (case s of None \<Rightarrow> m | Some i \<Rightarrow> set_element i (\<lambda>el. el\<lparr>e_parent := Some e\<rparr>) m)"

definition set_parents :: "nat \<Rightarrow> nat option list \<Rightarrow> Mesh \<Rightarrow> Mesh" where
  "set_parents e sons m = fold (set_parent e) sons m"

text \<open>The boundary flags and the markers of the edges of an element, as the splits record them.\<close>

definition edge_bnd :: "Mesh \<Rightarrow> nat \<Rightarrow> nat \<Rightarrow> int" where
  "edge_bnd m e k = n_bnd (nodes m ! (e_en (elements m ! e) ! k))"

definition edge_marker :: "Mesh \<Rightarrow> nat \<Rightarrow> nat \<Rightarrow> int" where
  "edge_marker m e k = n_marker (nodes m ! (e_en (elements m ! e) ! k))"

definition refine_triangle_to_triangles :: "Mesh \<Rightarrow> nat \<Rightarrow> error + Mesh" where
  "refine_triangle_to_triangles m e =
     (let el = elements m ! e;
          bnd = map (edge_bnd m e) [0..<3];
          mrk = map (edge_marker m e) [0..<3];
          (x0, m1) = get_vertex_node m (e_vn el ! 0) (e_vn el ! 1);
          (x1, m2) = get_vertex_node m1 (e_vn el ! 1) (e_vn el ! 2);
          (x2, m3) = get_vertex_node m2 (e_vn el ! 2) (e_vn el ! 0);
          (cm, m4) = (case e_cm el of
               None \<Rightarrow> ([None, None, None, None], m3)
             | Some c \<Rightarrow>
                 (let vs = vertex_coordinates m3 e
                  in (map (son_curv_map c 0) [0..<4],
                      set_xy x2 (get_mid_edge_points c vs (-1, 0))
                        (set_xy x1 (get_mid_edge_points c vs (0, 0))
                          (set_xy x0 (get_mid_edge_points c vs (0, -1)) m3)))))
      in ebind (create_triangle m4 (e_marker el) (e_vn el ! 0) x0 x2 (cm ! 0)) (\<lambda>(s0, m5).
         ebind (create_triangle m5 (e_marker el) x0 (e_vn el ! 1) x1 (cm ! 1)) (\<lambda>(s1, m6).
         ebind (create_triangle m6 (e_marker el) x2 x1 (e_vn el ! 2) (cm ! 2)) (\<lambda>(s2, m7).
         ebind (create_triangle m7 (e_marker el) x1 x2 x0 (cm ! 3)) (\<lambda>(s3, m8).
           (let m9 = set_element e (\<lambda>el. el\<lparr>e_active := False\<rparr>) m8;
                m10 = unref_all_nodes e (m9\<lparr>nactive := nactive m9 + 3\<rparr>);
                m11 = set_bnd_marker (en m10 s0 0) (bnd ! 0) (mrk ! 0) m10;
                m12 = set_bnd_marker (en m11 s0 2) (bnd ! 2) (mrk ! 2) m11;
                m13 = set_bnd_marker (en m12 s1 0) (bnd ! 0) (mrk ! 0) m12;
                m14 = set_bnd_marker (en m13 s1 1) (bnd ! 1) (mrk ! 1) m13;
                m15 = set_bnd_marker (en m14 s2 1) (bnd ! 1) (mrk ! 1) m14;
                m16 = set_bnd_marker (en m15 s2 2) (bnd ! 2) (mrk ! 2) m15;
                m17 = set_bnd (vn m16 s3 0) (bnd ! 1) m16;
                m18 = set_bnd (vn m17 s3 1) (bnd ! 2) m17;
                m19 = set_bnd (vn m18 s3 2) (bnd ! 0) m18;
                sons = [Some s0, Some s1, Some s2, Some s3];
                m20 = set_parents e sons m19
            in Inr (set_element e (\<lambda>el. el\<lparr>e_sons := sons\<rparr>) m20)))))))"

text \<open>
  \<open>refine_triangle_to_quads\<close>. The arc-halving code between the coordinates and the
  creation of the sons computes control points of circular arcs by floating-point
  trigonometry on the absent \<open>CurvMap\<close> and \<open>Arc\<close> types; its outcome, the map of
  each quad, is read from the parent's map, and the look-ups of mid-edge nodes it repeats
  return the nodes obtained above. Only three son slots are copied, the fourth keeps what
  it held.
\<close>

definition refine_triangle_to_quads :: "Mesh \<Rightarrow> nat \<Rightarrow> error + Mesh" where
  "refine_triangle_to_quads m e =
     (let el = elements m ! e;
          bnd = map (edge_bnd m e) [0..<3];
          mrk = map (edge_marker m e) [0..<3];
          (x0, m1) = get_vertex_node m (e_vn el ! 0) (e_vn el ! 1);
          (x1, m2) = get_vertex_node m1 (e_vn el ! 1) (e_vn el ! 2);
          (x2, m3) = get_vertex_node m2 (e_vn el ! 2) (e_vn el ! 0);
          (mid, m4) = get_vertex_node m3 x0 (e_vn el ! 1);
          m5 = set_xy mid
                 ((n_x (nodes m4 ! x0) + n_x (nodes m4 ! x1) + n_x (nodes m4 ! x2)) / 3,
                  (n_y (nodes m4 ! x0) + n_y (nodes m4 ! x1) + n_y (nodes m4 ! x2)) / 3) m4;
          e_inter = list_all (\<lambda>b. b \<noteq> 1) bnd;
          (cm, m6) = (case e_cm el of
               None \<Rightarrow> (\<lambda>i. None, m5)
             | Some c \<Rightarrow>
                 if e_inter then (\<lambda>i. None, m5)
                 else
                   (let vs = vertex_coordinates m5 e
                    in (arc_son_curv_map c,
                        set_xy mid (get_mid_edge_points c vs (- (33333333 / 100000000), - (33333333 / 100000000)))
                          (set_xy x2 (get_mid_edge_points c vs (-1, 0))
                            (set_xy x1 (get_mid_edge_points c vs (0, 0))
                              (set_xy x0 (get_mid_edge_points c vs (0, -1)) m5))))))
      in ebind (create_quad m6 (e_marker el) (e_vn el ! 0) x0 mid x2 (cm 0)) (\<lambda>(s0, m7).
         ebind (create_quad m7 (e_marker el) x0 (e_vn el ! 1) x1 mid (cm 1)) (\<lambda>(s1, m8).
         ebind (create_quad m8 (e_marker el) x1 (e_vn el ! 2) x2 mid (cm 2)) (\<lambda>(s2, m9).
           (let m10 = set_element e (\<lambda>el. el\<lparr>e_active := False\<rparr>) m9;
                m11 = unref_all_nodes e (m10\<lparr>nactive := nactive m10 + 2\<rparr>);
                m12 = set_bnd_marker (en m11 s0 0) (bnd ! 0) (mrk ! 0) m11;
                m13 = set_bnd_marker (en m12 s0 3) (bnd ! 2) (mrk ! 2) m12;
                m14 = set_bnd_marker (en m13 s1 0) (bnd ! 0) (mrk ! 0) m13;
                m15 = set_bnd_marker (en m14 s1 1) (bnd ! 1) (mrk ! 1) m14;
                m16 = set_bnd_marker (en m15 s2 0) (bnd ! 1) (mrk ! 1) m15;
                m17 = set_bnd_marker (en m16 s2 1) (bnd ! 2) (mrk ! 2) m16;
                m18 = set_parents e [Some s0, Some s1, Some s2] m17
            in Inr (set_element e (\<lambda>el. el\<lparr>e_sons :=
                      (e_sons el)[0 := Some s0, 1 := Some s1, 2 := Some s2]\<rparr>) m18))))))"

text \<open>
  \<open>refine_quad\<close>, one definition for each of its three branches. The element is
  deactivated and unregistered from its nodes before the mid-edge nodes are obtained.
  A refinement kind other than 0, 1 or 2 runs into \<open>assert(0)\<close>.
\<close>

definition mark_son :: "nat list \<Rightarrow> int list \<Rightarrow> int list \<Rightarrow> nat \<Rightarrow> Mesh \<Rightarrow> Mesh" where
  "mark_son sons bnd mrk i m =
     (let j = (if 0 < i then i - 1 else 3);
          ma = set_bnd_marker (en m (sons ! i) j) (bnd ! j) (mrk ! j) m;
          mb = set_bnd_marker (en ma (sons ! i) i) (bnd ! i) (mrk ! i) ma
      in set_bnd (vn mb (sons ! i) j) (bnd ! j) mb)"

definition refine_quad_0 ::
  "Mesh \<Rightarrow> nat \<Rightarrow> int list \<Rightarrow> int list \<Rightarrow> error + nat option list \<times> Mesh" where
  "refine_quad_0 m e bnd mrk =
     (let el = elements m ! e;
          (x0, m1) = get_vertex_node m (e_vn el ! 0) (e_vn el ! 1);
          (x1, m2) = get_vertex_node m1 (e_vn el ! 1) (e_vn el ! 2);
          (x2, m3) = get_vertex_node m2 (e_vn el ! 2) (e_vn el ! 3);
          (x3, m4) = get_vertex_node m3 (e_vn el ! 3) (e_vn el ! 0);
          (mid, m5) = get_vertex_node m4 x0 x2;
          (cm, m6) = (case e_cm el of
               None \<Rightarrow> ([None, None, None, None], m5)
             | Some c \<Rightarrow>
                 (let vs = vertex_coordinates m5 e
                  in (map (son_curv_map c 0) [0..<4],
                      set_xy mid (get_mid_edge_points c vs (0, 0))
                        (set_xy x3 (get_mid_edge_points c vs (-1, 0))
                          (set_xy x2 (get_mid_edge_points c vs (0, 1))
                            (set_xy x1 (get_mid_edge_points c vs (1, 0))
                              (set_xy x0 (get_mid_edge_points c vs (0, -1)) m5)))))))
      in ebind (create_quad m6 (e_marker el) (e_vn el ! 0) x0 mid x3 (cm ! 0)) (\<lambda>(s0, m7).
         ebind (create_quad m7 (e_marker el) x0 (e_vn el ! 1) x1 mid (cm ! 1)) (\<lambda>(s1, m8).
         ebind (create_quad m8 (e_marker el) mid x1 (e_vn el ! 2) x2 (cm ! 2)) (\<lambda>(s2, m9).
         ebind (create_quad m9 (e_marker el) x3 mid x2 (e_vn el ! 3) (cm ! 3)) (\<lambda>(s3, m10).
           (let sons = [s0, s1, s2, s3];
                m11 = m10\<lparr>nactive := nactive m10 + 4\<rparr>;
                m12 = fold (mark_son sons bnd mrk) [0..<4] m11
            in Inr (map Some sons, m12)))))))"

definition refine_quad_1 ::
  "Mesh \<Rightarrow> nat \<Rightarrow> int list \<Rightarrow> int list \<Rightarrow> error + nat option list \<times> Mesh" where
  "refine_quad_1 m e bnd mrk =
     (let el = elements m ! e;
          (x1, m1) = get_vertex_node m (e_vn el ! 1) (e_vn el ! 2);
          (x3, m2) = get_vertex_node m1 (e_vn el ! 3) (e_vn el ! 0);
          (cm, m3) = (case e_cm el of
               None \<Rightarrow> ([None, None], m2)
             | Some c \<Rightarrow>
                 (let vs = vertex_coordinates m2 e
                  in (map (son_curv_map c 4) [0..<2],
                      set_xy x3 (get_mid_edge_points c vs (-1, 0))
                        (set_xy x1 (get_mid_edge_points c vs (1, 0)) m2))))
      in ebind (create_quad m3 (e_marker el) (e_vn el ! 0) (e_vn el ! 1) x1 x3 (cm ! 0)) (\<lambda>(s0, m4).
         ebind (create_quad m4 (e_marker el) x3 x1 (e_vn el ! 2) (e_vn el ! 3) (cm ! 1)) (\<lambda>(s1, m5).
           (let m6 = m5\<lparr>nactive := nactive m5 + 2\<rparr>;
                m7 = set_bnd_marker (en m6 s0 0) (bnd ! 0) (mrk ! 0) m6;
                m8 = set_bnd_marker (en m7 s0 1) (bnd ! 1) (mrk ! 1) m7;
                m9 = set_bnd_marker (en m8 s0 3) (bnd ! 3) (mrk ! 3) m8;
                m10 = set_bnd_marker (en m9 s1 1) (bnd ! 1) (mrk ! 1) m9;
                m11 = set_bnd_marker (en m10 s1 2) (bnd ! 2) (mrk ! 2) m10;
                m12 = set_bnd_marker (en m11 s1 3) (bnd ! 3) (mrk ! 3) m11;
                m13 = set_bnd (vn m12 s0 2) (bnd ! 1) m12;
                m14 = set_bnd (vn m13 s0 3) (bnd ! 3) m13
            in Inr ([Some s0, Some s1, None, None], m14)))))"

definition refine_quad_2 ::
  "Mesh \<Rightarrow> nat \<Rightarrow> int list \<Rightarrow> int list \<Rightarrow> error + nat option list \<times> Mesh" where
  "refine_quad_2 m e bnd mrk =
     (let el = elements m ! e;
          (x0, m1) = get_vertex_node m (e_vn el ! 0) (e_vn el ! 1);
          (x2, m2) = get_vertex_node m1 (e_vn el ! 2) (e_vn el ! 3);
          (cm, m3) = (case e_cm el of
               None \<Rightarrow> ([None, None], m2)
             | Some c \<Rightarrow>
                 (let vs = vertex_coordinates m2 e
                  in (map (son_curv_map c 6) [0..<2],
                      set_xy x2 (get_mid_edge_points c vs (0, 1))
                        (set_xy x0 (get_mid_edge_points c vs (0, -1)) m2))))
      in ebind (create_quad m3 (e_marker el) (e_vn el ! 0) x0 x2 (e_vn el ! 3) (cm ! 0)) (\<lambda>(s2, m4).
         ebind (create_quad m4 (e_marker el) x0 (e_vn el ! 1) (e_vn el ! 2) x2 (cm ! 1)) (\<lambda>(s3, m5).
           (let m6 = m5\<lparr>nactive := nactive m5 + 2\<rparr>;
                m7 = set_bnd_marker (en m6 s2 0) (bnd ! 0) (mrk ! 0) m6;
                m8 = set_bnd_marker (en m7 s2 2) (bnd ! 2) (mrk ! 2) m7;
                m9 = set_bnd_marker (en m8 s2 3) (bnd ! 3) (mrk ! 3) m8;
                m10 = set_bnd_marker (en m9 s3 0) (bnd ! 0) (mrk ! 0) m9;
                m11 = set_bnd_marker (en m10 s3 1) (bnd ! 1) (mrk ! 1) m10;
                m12 = set_bnd_marker (en m11 s3 2) (bnd ! 2) (mrk ! 2) m11;
                m13 = set_bnd (vn m12 s2 1) (bnd ! 0) m12;
                m14 = set_bnd (vn m13 s2 2) (bnd ! 2) m13
            in Inr ([None, None, Some s2, Some s3], m14)))))"

definition refine_quad :: "Mesh \<Rightarrow> nat \<Rightarrow> int \<Rightarrow> error + Mesh" where
  "refine_quad m e refinement =
     (let el = elements m ! e;
          bnd = map (edge_bnd m e) [0..<4];
          mrk = map (edge_marker m e) [0..<4];
          m1 = set_element e (\<lambda>el. el\<lparr>e_active := False\<rparr>) m;
          m2 = unref_all_nodes e (m1\<lparr>nactive := nactive m1 - 1\<rparr>)
      in ebind (if refinement = 0 then refine_quad_0 m2 e bnd mrk
                else if refinement = 1 then refine_quad_1 m2 e bnd mrk
                else if refinement = 2 then refine_quad_2 m2 e bnd mrk
                else Inl AssertionFailure) (\<lambda>(sons, m3).
           Inr (set_element e (\<lambda>el. el\<lparr>e_sons := sons\<rparr>) (set_parents e sons m3))))"

definition copy_iro_cache :: "nat \<Rightarrow> nat \<Rightarrow> Mesh \<Rightarrow> Mesh" where
  "copy_iro_cache e i m =
     (case e_sons (elements m ! e) ! i of
        None \<Rightarrow> m
      | Some s \<Rightarrow> set_element s (\<lambda>el. el\<lparr>e_iro_cache := e_iro_cache (elements m ! e)\<rparr>) m)"

definition refine_element :: "Mesh \<Rightarrow> nat \<Rightarrow> int \<Rightarrow> error + Mesh" where
  "refine_element m e refinement =
     (let m1 = m\<lparr>refinements := refinements m @ [(e, refinement)]\<rparr>
      in ebind (if is_triangle (elements m1 ! e) then
                  (if refinement = 3 then refine_triangle_to_quads m1 e
                   else refine_triangle_to_triangles m1 e)
                else refine_quad m1 e refinement) (\<lambda>m2.
           (let m3 = fold (copy_iro_cache e) [0..<4] m2
            in Inr (m3\<lparr>seq := g_mesh_seq m3, g_mesh_seq := (g_mesh_seq m3 + 1) mod 2 ^ 32\<rparr>))))"

definition get_max_element_id :: "Mesh \<Rightarrow> int" where
  "get_max_element_id m = int (length (elements m))"

definition get_element :: "Mesh \<Rightarrow> int \<Rightarrow> error + nat" where
  "get_element m i =
     (if i < 0 \<or> i \<ge> int (length (elements m)) then
        Inl (Exception ''Invalid element ID %d, current range:[0; %d]''
               [i, int (length (elements m))])
      else Inr (nat i))"

definition refine_element_id :: "Mesh \<Rightarrow> int \<Rightarrow> int \<Rightarrow> error + Mesh" where
  "refine_element_id m i refinement =
     (if refinement = -1 then Inr m
      else ebind (get_element m i) (\<lambda>e.
        if \<not> e_used (elements m ! e) then Inl (Exception ''Invalid element id number.'' [])
        else if \<not> e_active (elements m ! e) then
          Inl (Exception ''Attempt to refine element #%d which has been refined already.'' [int e])
        else refine_element m e refinement))"

subsection \<open>Building a mesh\<close>

definition insert_marker :: "MarkersConversion \<Rightarrow> string \<Rightarrow> int \<times> MarkersConversion" where
  "insert_marker c user_marker =
     (case map_of (conversion_table_inverse c) user_marker of
        Some k \<Rightarrow> (k, c)
      | None \<Rightarrow> (min_marker_unused c,
          c\<lparr>conversion_table := conversion_table c @ [(min_marker_unused c, user_marker)],
            conversion_table_inverse :=
              conversion_table_inverse c @ [(user_marker, min_marker_unused c)],
            min_marker_unused := min_marker_unused c + 1\<rparr>))"

definition free :: "Mesh \<Rightarrow> Mesh" where
  "free m = m\<lparr>nodes := [], nodes_unused := [], elements := [], elements_unused := [],
     seq := 2 ^ 32 - 1, refinements := [],
     element_markers_conversion :=
       (element_markers_conversion m)\<lparr>conversion_table := [], conversion_table_inverse := []\<rparr>,
     boundary_markers_conversion :=
       (boundary_markers_conversion m)\<lparr>conversion_table := [], conversion_table_inverse := []\<rparr>\<rparr>"

fun create_vertices :: "(rat \<times> rat) list \<Rightarrow> Mesh \<Rightarrow> Mesh" where
  "create_vertices [] m = m"
| "create_vertices (v # vs) m =
     (let (i, m1) = nodes_add m
      in create_vertices vs
           (set_node i (\<lambda>n. n\<lparr>n_ref := TOP_LEVEL_REF, n_type := HERMES_TYPE_VERTEX, n_bnd := 0,
                                n_p1 := -1, n_p2 := -1, n_x := fst v, n_y := snd v\<rparr>) m1))"

fun create_triangles :: "((nat \<times> nat \<times> nat) \<times> string) list \<Rightarrow> Mesh \<Rightarrow> error + Mesh" where
  "create_triangles [] m = Inr m"
| "create_triangles (((a, b, c), mk) # ts) m =
     (let (k, conv) = insert_marker (element_markers_conversion m) mk
      in ebind (create_triangle (m\<lparr>element_markers_conversion := conv\<rparr>) k a b c None)
           (\<lambda>(e, m1). create_triangles ts m1))"

fun create_quads :: "((nat \<times> nat \<times> nat \<times> nat) \<times> string) list \<Rightarrow> Mesh \<Rightarrow> error + Mesh" where
  "create_quads [] m = Inr m"
| "create_quads (((a, b, c, d), mk) # qs) m =
     (let (k, conv) = insert_marker (element_markers_conversion m) mk
      in ebind (create_quad (m\<lparr>element_markers_conversion := conv\<rparr>) k a b c d None)
           (\<lambda>(e, m1). create_quads qs m1))"

fun set_boundary_markers :: "((nat \<times> nat) \<times> string) list \<Rightarrow> Mesh \<Rightarrow> error + Mesh" where
  "set_boundary_markers [] m = Inr m"
| "set_boundary_markers (((a, b), mk) # bs) m =
     (case peek_edge_node m a b of
        None \<Rightarrow> Inl (Exception ''Boundary data error (edge does not exist)'' [])
      | Some i \<Rightarrow>
          (let (k, conv) = insert_marker (boundary_markers_conversion m) mk;
               m1 = set_marker i k (m\<lparr>boundary_markers_conversion := conv\<rparr>)
           in set_boundary_markers bs (set_bnd i 1 (set_bnd b 1 (set_bnd a 1 m1)))))"

definition create ::
  "Mesh \<Rightarrow> (rat \<times> rat) list \<Rightarrow> (nat \<times> nat \<times> nat) list \<Rightarrow> string list \<Rightarrow>
     (nat \<times> nat \<times> nat \<times> nat) list \<Rightarrow> string list \<Rightarrow> (nat \<times> nat) list \<Rightarrow> string list \<Rightarrow>
     error + Mesh" where
  "create m verts tris tri_markers quads quad_markers mark boundary_markers =
     (let m1 = create_vertices verts (free m);
          m2 = m1\<lparr>ntopvert := int (length verts)\<rparr>
      in ebind (create_triangles (zip tris tri_markers) m2) (\<lambda>m3.
         ebind (create_quads (zip quads quad_markers) m3) (\<lambda>m4.
         ebind (set_boundary_markers (zip mark boundary_markers) m4) (\<lambda>m5.
           (let n = int (length tris) + int (length quads)
            in Inr (m5\<lparr>nbase := n, nactive := n, ninitial := n, seq := g_mesh_seq m5,
                       g_mesh_seq := (g_mesh_seq m5 + 1) mod 2 ^ 32\<rparr>))))))"

text \<open>The mesh a default-constructed \<open>Mesh\<close> object holds.\<close>

definition empty_Mesh :: Mesh where
  "empty_Mesh = \<lparr>nodes = [], nodes_unused = [], elements = [], elements_unused = [],
     nbase = 0, nactive = 0, ntopvert = 0, ninitial = 0, seq = 0, g_mesh_seq = 1,
     refinements = [], parents = (\<lambda>i. None), parents_size = 0,
     element_markers_conversion =
       \<lparr>conversion_table = [], conversion_table_inverse = [], min_marker_unused = 1\<rparr>,
     boundary_markers_conversion =
       \<lparr>conversion_table = [], conversion_table_inverse = [], min_marker_unused = 1\<rparr>\<rparr>"

text \<open>The sequence number is unsigned: it is never negative, whatever was stored.\<close>

definition get_num_active_elements :: "Mesh \<Rightarrow> int" where
  "get_num_active_elements m = (if seq m < 0 then -1 else nactive m)"


subsection \<open>Derefinement\<close>

text \<open>
  Modelled from the spec: \<open>MeshUtil::get_edge_sons\<close> (absent), the fixed index
  mapping from an edge of a refined element to the first son that carries a part of it:
  for a quad split in two the son on that side, otherwise the son with the same index.
\<close>

definition get_edge_sons :: "Element \<Rightarrow> nat \<Rightarrow> nat" where
  "get_edge_sons e edge =
     (if \<not> is_triangle e \<and> e_sons e ! 2 = None then
        (if edge = 0 then 0 else if edge = 2 then 1 else if edge = 1 then 0 else 1)
      else if \<not> is_triangle e \<and> e_sons e ! 0 = None then
        (if edge = 1 then 3 else if edge = 3 then 2 else if edge = 0 then 2 else 3)
      else edge)"

text \<open>
  Results that may also fail to exist, because a recursion or a loop of the source does
  not end: \<open>None\<close> is a call that never returns.
\<close>

definition rbind ::
  "(error + 'a) option \<Rightarrow> ('a \<Rightarrow> (error + 'b) option) \<Rightarrow> (error + 'b) option" where
  "rbind x f = (case x of None \<Rightarrow> None
                | Some r \<Rightarrow> (case r of Inl err \<Rightarrow> Some (Inl err) | Inr v \<Rightarrow> f v))"

lemma rbind_mono [partial_function_mono]:
  assumes B: "mono_option B" and C: "\<And>y. mono_option (C y)"
  shows "mono_option (\<lambda>f. rbind (B f) (\<lambda>y. C y f))"
proof -
  have "mono_option (\<lambda>f. Option.bind (B f)
          (\<lambda>r. case r of Inl err \<Rightarrow> Some (Inl err) | Inr v \<Rightarrow> C v f))"
  proof (rule bind_mono [OF B])
    fix r show "mono_option (\<lambda>f. case r of Inl err \<Rightarrow> Some (Inl err) | Inr v \<Rightarrow> C v f)"
      by (cases r) (simp_all add: C option.const_mono)
  qed
  moreover have "(\<lambda>f. rbind (B f) (\<lambda>y. C y f)) =
      (\<lambda>f. Option.bind (B f) (\<lambda>r. case r of Inl err \<Rightarrow> Some (Inl err) | Inr v \<Rightarrow> C v f))"
    by (auto simp: rbind_def fun_eq_iff split: option.splits)
  ultimately show ?thesis by simp
qed

text \<open>
  \<open>unrefine_element_internal\<close>. The assertions are branches; a null son where the
  source dereferences one is \<open>NullPointer\<close>.
\<close>

definition remove_son :: "nat \<Rightarrow> nat \<Rightarrow> Mesh \<Rightarrow> Mesh" where
  "remove_son e i m =
     (case e_sons (elements m ! e) ! i of
        None \<Rightarrow> m
      | Some s \<Rightarrow>
          (let m1 = unref_all_nodes s m;
               m2 = set_element s (\<lambda>el. el\<lparr>e_cm := None\<rparr>) m1;
               m3 = elements_remove s m2
           in m3\<lparr>nactive := nactive m3 - 1\<rparr>))"

definition recreate_edge :: "nat \<Rightarrow> nat \<Rightarrow> Mesh \<Rightarrow> Mesh" where
  "recreate_edge e i m =
     (let (k, ma) = get_edge_node m (vn m e i) (vn m e (next_vert (elements m ! e) i))
      in set_element e (\<lambda>el. el\<lparr>e_en := (e_en el)[i := k]\<rparr>) ma)"

definition restore_edge :: "nat \<Rightarrow> (int \<times> int) list \<Rightarrow> nat \<Rightarrow> Mesh \<Rightarrow> Mesh" where
  "restore_edge e mb i m =
     set_bnd (en m e i) (snd (mb ! i)) (set_marker (en m e i) (fst (mb ! i)) m)"

definition son_edge_data :: "Mesh \<Rightarrow> nat \<Rightarrow> nat \<Rightarrow> error + int \<times> int" where
  "son_edge_data m e i =
     (case e_sons (elements m ! e) ! get_edge_sons (elements m ! e) i of
        None \<Rightarrow> Inl NullPointer
      | Some s \<Rightarrow>
          if \<not> e_active (elements m ! s) then Inl AssertionFailure
          else Inr (n_marker (nodes m ! en m s i), n_bnd (nodes m ! en m s i)))"

fun collect_edge_data :: "Mesh \<Rightarrow> nat \<Rightarrow> nat list \<Rightarrow> error + (int \<times> int) list" where
  "collect_edge_data m e [] = Inr []"
| "collect_edge_data m e (i # is) =
     ebind (son_edge_data m e i) (\<lambda>d. ebind (collect_edge_data m e is) (\<lambda>ds. Inr (d # ds)))"

definition unrefine_element_internal :: "Mesh \<Rightarrow> nat \<Rightarrow> error + Mesh" where
  "unrefine_element_internal m e =
     (let m1 = m\<lparr>refinements := refinements m @ [(e, -1)]\<rparr>;
          nv = e_nvert (elements m1 ! e)
      in if e_active (elements m1 ! e) then Inl AssertionFailure
         else ebind (collect_edge_data m1 e [0..<nv]) (\<lambda>mb.
           (let m2 = fold (remove_son e) [0..<4] m1;
                m3 = fold (recreate_edge e) [0..<nv] m2;
                m4 = set_element e (\<lambda>el. el\<lparr>e_active := True\<rparr>) (ref_all_nodes e m3);
                m5 = m4\<lparr>nactive := nactive m4 + 1\<rparr>
            in Inr (fold (restore_edge e mb) [0..<nv] m5))))"

partial_function (option) unrefine_element_id :: "Mesh \<Rightarrow> int \<Rightarrow> (error + Mesh) option" where
  "unrefine_element_id m i =
     (case get_element m i of
        Inl err \<Rightarrow> Some (Inl err)
      | Inr e \<Rightarrow>
          if \<not> e_used (elements m ! e) then Some (Inl (Exception ''Invalid element id number.'' []))
          else if e_active (elements m ! e) then Some (Inr m)
          else
            rbind (case e_sons (elements m ! e) ! 0 of None \<Rightarrow> Some (Inr m)
                   | Some s \<Rightarrow> unrefine_element_id m (int s)) (\<lambda>m1.
            rbind (case e_sons (elements m1 ! e) ! 1 of None \<Rightarrow> Some (Inr m1)
                   | Some s \<Rightarrow> unrefine_element_id m1 (int s)) (\<lambda>m2.
            rbind (case e_sons (elements m2 ! e) ! 2 of None \<Rightarrow> Some (Inr m2)
                   | Some s \<Rightarrow> unrefine_element_id m2 (int s)) (\<lambda>m3.
            rbind (case e_sons (elements m3 ! e) ! 3 of None \<Rightarrow> Some (Inr m3)
                   | Some s \<Rightarrow> unrefine_element_id m3 (int s)) (\<lambda>m4.
              (case unrefine_element_internal m4 e of
                 Inl err \<Rightarrow> Some (Inl err)
               | Inr m5 \<Rightarrow> Some (Inr (m5\<lparr>seq := g_mesh_seq m5,
                                         g_mesh_seq := (g_mesh_seq m5 + 1) mod 2 ^ 32\<rparr>))))))))"

subsection \<open>Regularization\<close>

partial_function (option) get_edge_degree :: "Mesh \<Rightarrow> nat \<Rightarrow> nat \<Rightarrow> int option" where
  "get_edge_degree m v1 v2 =
     (case peek_vertex_node m v1 v2 of
        None \<Rightarrow> Some 0
      | Some v3 \<Rightarrow>
          Option.bind (get_edge_degree m v1 v3) (\<lambda>a.
          Option.bind (get_edge_degree m v3 v2) (\<lambda>b. Some (1 + max a b))))"

text \<open>
  \<open>assign_parent\<close>. The array is doubled once when the son's id is beyond it; an
  index still outside the array afterwards is \<open>OutOfBounds\<close>.
\<close>

definition assign_parent :: "Mesh \<Rightarrow> nat \<Rightarrow> nat \<Rightarrow> error + Mesh" where
  "assign_parent m e i =
     (case e_sons (elements m ! e) ! i of
        None \<Rightarrow> Inr m
      | Some s \<Rightarrow>
          (let m1 = (if s \<ge> parents_size m then m\<lparr>parents_size := 2 * parents_size m\<rparr> else m)
           in if s \<ge> parents_size m1 \<or> e \<ge> parents_size m1 then Inl OutOfBounds
              else Inr (m1\<lparr>parents := (parents m1)(s := parents m1 e)\<rparr>)))"

definition assign_parents :: "Mesh \<Rightarrow> nat \<Rightarrow> error + Mesh" where
  "assign_parents m e =
     ebind (assign_parent m e 0) (\<lambda>m1. ebind (assign_parent m1 e 1) (\<lambda>m2.
     ebind (assign_parent m2 e 2) (\<lambda>m3. assign_parent m3 e 3)))"

definition lift :: "error + 'a \<Rightarrow> (error + 'a) option" where
  "lift r = Some r"

definition degree :: "Mesh \<Rightarrow> nat \<Rightarrow> nat \<Rightarrow> nat \<Rightarrow> (error + int) option" where
  "degree m e i j = map_option Inr (get_edge_degree m (vn m e i) (vn m e j))"

text \<open>A vertex node that a peek must have found: the source dereferences it unchecked.\<close>

definition peeked :: "Mesh \<Rightarrow> nat \<Rightarrow> nat \<Rightarrow> error + nat" where
  "peeked m p1 p2 = (case peek_vertex_node m p1 p2 of None \<Rightarrow> Inl NullPointer | Some v \<Rightarrow> Inr v)"

text \<open>The index \<open>k\<close> that a loop \<open>for (i...) if (c(i)) k = i\<close> leaves behind.\<close>

fun last_index :: "(nat \<Rightarrow> bool) \<Rightarrow> nat list \<Rightarrow> nat \<Rightarrow> nat" where
  "last_index c [] k = k"
| "last_index c (i # is) k = last_index c is (if c i then i else k)"

text \<open>\<open>regularize_triangle\<close>, with one definition for each hanging-node pattern.\<close>

definition regularize_triangle_1 :: "Mesh \<Rightarrow> nat \<Rightarrow> int list \<Rightarrow> error + Mesh" where
  "regularize_triangle_1 m e eo =
     (let el = elements m ! e;
          bnd = map (edge_bnd m e) [0..<3];
          mrk = map (edge_marker m e) [0..<3];
          k = last_index (\<lambda>i. eo ! i = 1) [0..<3] 0;
          k1 = next_vert el k; k2 = prev_vert el k
      in ebind (peeked m (e_vn el ! k) (e_vn el ! k1)) (\<lambda>v4.
         (let m1 = set_element e (\<lambda>el. el\<lparr>e_active := False\<rparr>) m;
              m2 = unref_all_nodes e (m1\<lparr>nactive := nactive m1 + 1\<rparr>)
          in ebind (create_triangle m2 (e_marker el) (e_vn el ! k) v4 (e_vn el ! k2) None) (\<lambda>(t0, m3).
             ebind (create_triangle m3 (e_marker el) v4 (e_vn el ! k1) (e_vn el ! k2) None) (\<lambda>(t1, m4).
               (let m5 = set_bnd (en m4 t0 2) (bnd ! k2) m4;
                    m6 = set_bnd (en m5 t1 1) (bnd ! k1) m5;
                    m7 = set_marker (en m6 t0 2) (mrk ! k2) m6;
                    m8 = set_marker (en m7 t1 1) (mrk ! k1) m7
                in Inr (set_element e
                          (\<lambda>el. el\<lparr>e_sons := [Some t0, Some t1, None, None]\<rparr>) m8)))))))"

definition regularize_triangle_2 :: "Mesh \<Rightarrow> nat \<Rightarrow> int list \<Rightarrow> error + Mesh" where
  "regularize_triangle_2 m e eo =
     (let el = elements m ! e;
          bnd = map (edge_bnd m e) [0..<3];
          mrk = map (edge_marker m e) [0..<3];
          k = last_index (\<lambda>i. eo ! i = 0) [0..<3] 0;
          k1 = next_vert el k; k2 = prev_vert el k
      in ebind (peeked m (e_vn el ! k1) (e_vn el ! k2)) (\<lambda>v4.
         ebind (peeked m (e_vn el ! k2) (e_vn el ! k)) (\<lambda>v5.
         (let m1 = set_element e (\<lambda>el. el\<lparr>e_active := False\<rparr>) m;
              m2 = unref_all_nodes e (m1\<lparr>nactive := nactive m1 + 2\<rparr>)
          in ebind (create_triangle m2 (e_marker el) (e_vn el ! k) (e_vn el ! k1) v4 None) (\<lambda>(t0, m3).
             ebind (create_triangle m3 (e_marker el) v4 v5 (e_vn el ! k) None) (\<lambda>(t1, m4).
             ebind (create_triangle m4 (e_marker el) v4 (e_vn el ! k2) v5 None) (\<lambda>(t2, m5).
               (let m6 = set_bnd (en m5 t0 0) (bnd ! k) m5;
                    m7 = set_marker (en m6 t0 0) (mrk ! k) m6
                in Inr (set_element e
                          (\<lambda>el. el\<lparr>e_sons := [Some t0, Some t1, Some t2, None]\<rparr>) m7)))))))))"

definition regularize_triangle :: "Mesh \<Rightarrow> nat \<Rightarrow> (error + Mesh) option" where
  "regularize_triangle m e =
     rbind (degree m e 0 1) (\<lambda>eo0. rbind (degree m e 1 2) (\<lambda>eo1. rbind (degree m e 2 0) (\<lambda>eo2.
     (let eo = [eo0, eo1, eo2]; sum = eo0 + eo1 + eo2
      in rbind (lift (if sum = 3 then refine_element_id m (int e) 0
                      else if sum > 0 then
                        (if sum = 1 then regularize_triangle_1 m e eo
                         else if sum = 2 then regularize_triangle_2 m e eo
                         else Inr m)
                      else Inr m)) (\<lambda>m9.
           if \<not> e_active (elements m9 ! e) then lift (assign_parents m9 e)
           else Some (Inr m9))))))"

text \<open>\<open>regularize_quad\<close>: the patterns that build triangles first.\<close>

definition regularize_quad_1 :: "Mesh \<Rightarrow> nat \<Rightarrow> int list \<Rightarrow> error + Mesh" where
  "regularize_quad_1 m e eo =
     (let el = elements m ! e;
          bnd = map (edge_bnd m e) [0..<4];
          mrk = map (edge_marker m e) [0..<4];
          k = last_index (\<lambda>i. eo ! i = 1) [0..<4] 0;
          k1 = next_vert el k; k2 = next_vert el k1; k3 = prev_vert el k
      in ebind (peeked m (e_vn el ! k) (e_vn el ! k1)) (\<lambda>v4.
         (let m1 = set_element e (\<lambda>el. el\<lparr>e_active := False\<rparr>) m;
              m2 = unref_all_nodes e (m1\<lparr>nactive := nactive m1 + 2\<rparr>)
          in ebind (create_triangle m2 (e_marker el) (e_vn el ! k) v4 (e_vn el ! k3) None) (\<lambda>(t0, m3).
             ebind (create_triangle m3 (e_marker el) v4 (e_vn el ! k1) (e_vn el ! k2) None) (\<lambda>(t1, m4).
             ebind (create_triangle m4 (e_marker el) v4 (e_vn el ! k2) (e_vn el ! k3) None) (\<lambda>(t2, m5).
               (let m6 = set_bnd (en m5 t0 2) (bnd ! k3) m5;
                    m7 = set_bnd (en m6 t1 1) (bnd ! k1) m6;
                    m8 = set_bnd (en m7 t2 1) (bnd ! k2) m7;
                    m9 = set_marker (en m8 t0 2) (mrk ! k3) m8;
                    m10 = set_marker (en m9 t1 1) (mrk ! k1) m9;
                    m11 = set_marker (en m10 t2 1) (mrk ! k2) m10
                in Inr (set_element e
                          (\<lambda>el. el\<lparr>e_sons := [Some t0, Some t1, Some t2, None]\<rparr>) m11))))))))"

definition regularize_quad_2 :: "Mesh \<Rightarrow> nat \<Rightarrow> int list \<Rightarrow> error + Mesh" where
  "regularize_quad_2 m e eo =
     (let el = elements m ! e;
          bnd = map (edge_bnd m e) [0..<4];
          mrk = map (edge_marker m e) [0..<4];
          k = last_index (\<lambda>i. eo ! i = 1 \<and> eo ! next_vert el i = 1) [0..<4] 0;
          k1 = next_vert el k; k2 = next_vert el k1; k3 = prev_vert el k
      in ebind (peeked m (e_vn el ! k) (e_vn el ! k1)) (\<lambda>v4.
         ebind (peeked m (e_vn el ! k1) (e_vn el ! k2)) (\<lambda>v5.
         (let m1 = set_element e (\<lambda>el. el\<lparr>e_active := False\<rparr>) m;
              m2 = unref_all_nodes e (m1\<lparr>nactive := nactive m1 + 3\<rparr>)
          in ebind (create_triangle m2 (e_marker el) (e_vn el ! k1) v5 v4 None) (\<lambda>(t0, m3).
             ebind (create_triangle m3 (e_marker el) v5 (e_vn el ! k2) (e_vn el ! k3) None) (\<lambda>(t1, m4).
             ebind (create_triangle m4 (e_marker el) v4 v5 (e_vn el ! k3) None) (\<lambda>(t2, m5).
             ebind (create_triangle m5 (e_marker el) v4 (e_vn el ! k3) (e_vn el ! k) None) (\<lambda>(t3, m6).
               (let m7 = set_bnd (en m6 t1 1) (bnd ! k2) m6;
                    m8 = set_bnd (en m7 t3 1) (bnd ! k3) m7;
                    m9 = set_marker (en m8 t1 1) (mrk ! k2) m8;
                    m10 = set_marker (en m9 t3 1) (mrk ! k3) m9
                in Inr (set_element e
                          (\<lambda>el. el\<lparr>e_sons := [Some t0, Some t1, Some t2, Some t3]\<rparr>) m10))))))))))"

text \<open>
  The recursive calls of the last branch go to two sons; a null son there is
  \<open>NullPointer\<close>.
\<close>

definition son :: "Mesh \<Rightarrow> nat \<Rightarrow> nat \<Rightarrow> error + nat" where
  "son m e i = (case e_sons (elements m ! e) ! i of None \<Rightarrow> Inl NullPointer | Some s \<Rightarrow> Inr s)"

partial_function (option) regularize_quad :: "Mesh \<Rightarrow> nat \<Rightarrow> (error + Mesh) option" where
  "regularize_quad m e =
     rbind (degree m e 0 1) (\<lambda>eo0. rbind (degree m e 1 2) (\<lambda>eo1.
     rbind (degree m e 2 3) (\<lambda>eo2. rbind (degree m e 3 0) (\<lambda>eo3.
     (let eo = [eo0, eo1, eo2, eo3]; sum = eo0 + eo1 + eo2 + eo3
      in rbind
           (if sum = 4 then lift (refine_element_id m (int e) 0)
            else if sum > 0 then
              (if sum = 1 then lift (regularize_quad_1 m e eo)
               else if sum = 2 then
                 (if eo0 = 1 \<and> eo2 = 1 then lift (refine_element_id m (int e) 2)
                  else if eo1 = 1 \<and> eo3 = 1 then lift (refine_element_id m (int e) 1)
                  else lift (regularize_quad_2 m e eo))
               else
                 rbind (if eo0 = 1 \<and> eo2 = 1 then
                          lift (ebind (refine_element_id m (int e) 2) (\<lambda>m1.
                                ebind (assign_parents m1 e) (\<lambda>m2. Inr (2, 3, m2))))
                        else if eo1 = 1 \<and> eo3 = 1 then
                          lift (ebind (refine_element_id m (int e) 1) (\<lambda>m1.
                                ebind (assign_parents m1 e) (\<lambda>m2. Inr (0, 1, m2))))
                        else Some (Inr (0, 0, m))) (\<lambda>(n, k, m3).
                 rbind (lift (son m3 e n)) (\<lambda>s1.
                 rbind (regularize_quad m3 s1) (\<lambda>m4.
                 rbind (lift (son m4 e k)) (\<lambda>s2. regularize_quad m4 s2)))))
            else Some (Inr m)) (\<lambda>m9.
           if \<not> e_active (elements m9 ! e) then lift (assign_parents m9 e)
           else Some (Inr m9)))))))"

text \<open>
  Modelled from the spec: the iteration macros of mesh.h (absent). A loop over the
  active elements visits the ids below the size the store had when the loop began, in
  order, and runs its body on each slot that is used and active when it is reached.
\<close>

definition is_active :: "Mesh \<Rightarrow> nat \<Rightarrow> bool" where
  "is_active m i = (e_used (elements m ! i) \<and> e_active (elements m ! i))"

text \<open>
  \<open>flatten\<close>. The active elements move, in order, to the front of a new store and
  their parent entries move with them; the element references of the edge nodes are
  renumbered, a reference to a slot that is not copied becoming null.
\<close>

fun index_of :: "nat \<Rightarrow> nat list \<Rightarrow> nat \<Rightarrow> nat option" where
  "index_of x [] k = None"
| "index_of x (y # ys) k = (if x = y then Some k else index_of x ys (Suc k))"

definition move_parent :: "nat \<times> nat \<Rightarrow> (nat \<Rightarrow> int option) \<Rightarrow> nat \<Rightarrow> int option" where
  "move_parent no p = p(fst no := p (snd no))"

definition renumber :: "nat list \<Rightarrow> nat option \<Rightarrow> nat option" where
  "renumber act r = (case r of None \<Rightarrow> None | Some old \<Rightarrow> index_of old act 0)"

definition renumber_elem :: "nat list \<Rightarrow> Node \<Rightarrow> Node" where
  "renumber_elem act n =
     (if n_used n \<and> n_type n = HERMES_TYPE_EDGE then n\<lparr>n_elem := map (renumber act) (n_elem n)\<rparr>
      else n)"

definition flatten :: "Mesh \<Rightarrow> Mesh" where
  "flatten m =
     (let act = filter (is_active m) [0..<length (elements m)];
          new_parents = fold move_parent (zip [0..<length act] act) (parents m);
          new_nodes = map (renumber_elem act) (nodes m)
      in m\<lparr>nodes := new_nodes, elements := map (nth (elements m)) act, elements_unused := [],
           nbase := int (length act), nactive := int (length act), parents := new_parents\<rparr>)"

text \<open>
  \<open>regularize\<close>. The tests of the balancing loop evaluate their edge degrees from
  left to right and stop as \<open>||\<close> and \<open>&&\<close> do.
\<close>

definition exceeds :: "Mesh \<Rightarrow> nat \<Rightarrow> nat \<Rightarrow> nat \<Rightarrow> int \<Rightarrow> bool option" where
  "exceeds m e i j n = map_option (\<lambda>d. d > n) (get_edge_degree m (vn m e i) (vn m e j))"

fun first_exceeding :: "Mesh \<Rightarrow> nat \<Rightarrow> int \<Rightarrow> nat list \<Rightarrow> int option" where
  "first_exceeding m e n [] = Some (-1)"
| "first_exceeding m e n (i # is) =
     Option.bind (exceeds m e i (next_vert (elements m ! e) i) n)
       (\<lambda>b. if b then Some 0 else first_exceeding m e n is)"

definition choose_iso :: "Mesh \<Rightarrow> nat \<Rightarrow> int \<Rightarrow> int option" where
  "choose_iso m e n =
     (if is_triangle (elements m ! e) then first_exceeding m e n [0..<e_nvert (elements m ! e)]
      else
        Option.bind
          (Option.bind (exceeds m e 0 1 n) (\<lambda>a.
           Option.bind (if a then Some True else exceeds m e 2 3 n) (\<lambda>ac.
             if \<not> ac then Some False
             else Option.bind (exceeds m e 1 2 n) (\<lambda>b.
               if b then Some False
               else Option.bind (exceeds m e 3 0 n) (\<lambda>d. Some (\<not> d)))))) (\<lambda>c1.
        if c1 then Some 2
        else
          Option.bind
            (Option.bind (exceeds m e 0 1 n) (\<lambda>a.
               if a then Some False
               else Option.bind (exceeds m e 2 3 n) (\<lambda>c.
                 if c then Some False
                 else Option.bind (exceeds m e 1 2 n) (\<lambda>b.
                   if b then Some True else exceeds m e 3 0 n)))) (\<lambda>c2.
          if c2 then Some 1
          else first_exceeding m e n [0..<e_nvert (elements m ! e)])))"

fun regularize_pass :: "int \<Rightarrow> nat list \<Rightarrow> bool \<Rightarrow> Mesh \<Rightarrow> (error + bool \<times> Mesh) option" where
  "regularize_pass n [] ok m = Some (Inr (ok, m))"
| "regularize_pass n (e # es) ok m =
     (if \<not> is_active m e then regularize_pass n es ok m
      else
        (case choose_iso m e n of
           None \<Rightarrow> None
         | Some refinement \<Rightarrow>
             if refinement \<ge> 0 then
               rbind (lift (ebind (refine_element_id m (int e) refinement)
                             (\<lambda>m1. assign_parents m1 e)))
                 (\<lambda>m2. regularize_pass n es False m2)
             else regularize_pass n es ok m))"

partial_function (option) regularize_loop :: "int \<Rightarrow> Mesh \<Rightarrow> (error + Mesh) option" where
  "regularize_loop n m =
     rbind (regularize_pass n [0..<length (elements m)] True m)
       (\<lambda>(ok, m1). if ok then Some (Inr m1) else regularize_loop n m1)"

fun regularize_post :: "nat list \<Rightarrow> Mesh \<Rightarrow> (error + Mesh) option" where
  "regularize_post [] m = Some (Inr m)"
| "regularize_post (e # es) m =
     (if \<not> is_active m e then regularize_post es m
      else if is_curved (elements m ! e) then
        Some (Inl (Exception ''Regularization of curved elements is not supported.'' []))
      else
        rbind (if is_triangle (elements m ! e) then regularize_triangle m e
               else regularize_quad m e) (\<lambda>m1. regularize_post es m1))"

text \<open>
  The mesh that \<open>regularize\<close> returns carries the array it returns in \<open>parents\<close>.
\<close>

definition own_parent :: "Mesh \<Rightarrow> nat \<Rightarrow> (nat \<Rightarrow> int option) \<Rightarrow> nat \<Rightarrow> int option" where
  "own_parent m e p = (if is_active m e then p(e := Some (int e)) else p)"

definition allocate_parents :: "Mesh \<Rightarrow> Mesh" where
  "allocate_parents m =
     m\<lparr>parents_size := 2 * length (elements m),
       parents := fold (own_parent m) [0..<length (elements m)] (\<lambda>i. None)\<rparr>"

definition regularize :: "Mesh \<Rightarrow> int \<Rightarrow> (error + Mesh) option" where
  "regularize m n =
     (let reg = (n < 1); n1 = (if n < 1 then 1 else n);
          m1 = allocate_parents m
      in rbind (regularize_loop n1 m1) (\<lambda>m2.
           if reg then
             rbind (regularize_post [0..<length (elements m2)] m2) (\<lambda>m3. Some (Inr (flatten m3)))
           else Some (Inr m2)))"

text \<open>
  A store of two slots for the argument checks: slot 0 holds an element that has been
  refined, slot 1 has been freed.
\<close>

definition two_slots :: Mesh where
  "two_slots = empty_Mesh\<lparr>elements := [new_Element, new_Element\<lparr>e_used := False\<rparr>],
                          elements_unused := [1]\<rparr>"

text \<open>
  A curved triangle for the post-pass: three top-level vertices and one triangle whose
  map returns every reference point unchanged.
\<close>

primcorec straight_map :: CurvMap where
  "straight_map = CurvMap (\<lambda>vs p. p) (\<lambda>i. straight_map) (\<lambda>i. None)"

definition curved_triangle :: Mesh where
  "curved_triangle =
     (case create_triangle (create_vertices [(0, 0), (1, 0), (0, 1)] empty_Mesh) 1 0 1 2
             (Some straight_map) of
        Inl err \<Rightarrow> empty_Mesh
      | Inr (e, m) \<Rightarrow> m\<lparr>nbase := 1, nactive := 1, ninitial := 1, ntopvert := 3\<rparr>)"

section \<open>Evaluation\<close>

text \<open>
  Rules that make the simplifier run the definitions on a concrete mesh the way the
  program runs: the argument of a bind, a case or a fold is evaluated before its
  continuation is entered.
\<close>

lemma ebind_weak_cong: "r = r' \<Longrightarrow> ebind r f = ebind r' f"
  by simp

lemma rbind_weak_cong: "r = r' \<Longrightarrow> rbind r f = rbind r' f"
  by simp

lemma obind_weak_cong: "r = r' \<Longrightarrow> Option.bind r f = Option.bind r' f"
  by simp

lemma fold_weak_cong: "xs = ys \<Longrightarrow> m = m' \<Longrightarrow> fold f xs m = fold f ys m'"
  by simp

lemma ebind_Inr: "ebind (Inr v) f = f v"
  by (simp add: ebind_def)

lemma ebind_Inl: "ebind (Inl e) f = Inl e"
  by (simp add: ebind_def)

lemma rbind_Inr: "rbind (Some (Inr v)) f = f v"
  by (simp add: rbind_def)

lemma rbind_Inl: "rbind (Some (Inl e)) f = Some (Inl e)"
  by (simp add: rbind_def)

lemma rbind_None: "rbind None f = None"
  by (simp add: rbind_def)

lemma upt_2: "[0..<2] = [0, Suc 0]"
  by (simp add: eval_nat_numeral)

lemma upt_3: "[0..<3] = [0, Suc 0, 2]"
  by (simp add: eval_nat_numeral)

lemma upt_4: "[0..<4] = [0, Suc 0, 2, 3]"
  by (simp add: eval_nat_numeral)

lemmas eval_cong = ebind_weak_cong rbind_weak_cong obind_weak_cong fold_weak_cong
  sum.case_cong_weak prod.case_cong_weak option.case_cong_weak list.case_cong_weak
  let_weak_cong

lemmas eval_simps = upt_2 upt_3 upt_4 fold_simps Let_def
  ebind_Inr ebind_Inl rbind_Inr rbind_Inl rbind_None lift_def
  nodes_add_def nodes_remove_def elements_add_def elements_remove_def
  has_key_def peek_vertex_node_def peek_edge_node_def set_node_def set_element_def
  get_vertex_node_def get_edge_node_def ref_element_def unref_element_def
  ref_nodes_def unref_nodes_def ref_all_nodes_def unref_all_nodes_def
  create_triangle_def create_quad_def set_parent_def edge_bnd_def edge_marker_def
  son_curv_map_def coordinates_def mark_son_def copy_iro_cache_def own_parent_def
  en_def vn_def set_bnd_def set_marker_def set_bnd_marker_def set_xy_def
  vertex_coordinates_def set_parents_def
  refine_triangle_to_triangles_def refine_triangle_to_quads_def
  refine_quad_0_def refine_quad_1_def refine_quad_2_def refine_quad_def
  refine_element_def get_element_def refine_element_id_def
  insert_marker_def free_def create_def empty_Mesh_def get_num_active_elements_def
  new_Node_def new_Element_def is_triangle_def is_curved_def is_active_def
  next_vert_def prev_vert_def TOP_LEVEL_REF_def
  get_edge_degree.simps exceeds_def choose_iso_def regularize_loop.simps
  allocate_parents_def assign_parent_def assign_parents_def

section \<open>Properties\<close>

subsection \<open>Argument checks of \<open>refine_element_id\<close>\<close>

text \<open>
  C10. For every id, also one that is out of range or names an unused or an inactive
  element, \<open>refine_element_id(id, -1)\<close> returns at once: no exception is raised and
  the mesh that comes back is the mesh that went in, with every element, node, counter,
  sequence number and log entry as it was.
\<close>

theorem refine_element_id_no_refinement:
  "refine_element_id m i (-1) = Inr m"
  by (simp add: refine_element_id_def)

text \<open>
  C9, as the code has it. For every refinement kind other than -1,
  \<open>refine_element_id(id, kind)\<close> raises an exception when the id is outside the range
  of the element store, when the element is unused, and when it is inactive; and
  \<open>get_element(id)\<close> raises the invalid-id exception for an id outside the range.
\<close>

theorem refine_element_id_raises:
  assumes "refinement \<noteq> -1"
  shows "(i < 0 \<or> int (length (elements m)) \<le> i \<longrightarrow>
            refine_element_id m i refinement =
              Inl (Exception ''Invalid element ID %d, current range:[0; %d]''
                     [i, int (length (elements m))]) \<and>
            get_element m i =
              Inl (Exception ''Invalid element ID %d, current range:[0; %d]''
                     [i, int (length (elements m))])) \<and>
         (0 \<le> i \<and> i < int (length (elements m)) \<and> \<not> e_used (elements m ! nat i) \<longrightarrow>
            refine_element_id m i refinement = Inl (Exception ''Invalid element id number.'' [])) \<and>
         (0 \<le> i \<and> i < int (length (elements m)) \<and> e_used (elements m ! nat i) \<and>
            \<not> e_active (elements m ! nat i) \<longrightarrow>
            refine_element_id m i refinement =
              Inl (Exception ''Attempt to refine element #%d which has been refined already.'' [i]))"
  using assms by (auto simp: refine_element_id_def get_element_def ebind_def)

theorem refine_element_id_raises_witness:
  "refine_element_id two_slots 2 0 =
     Inl (Exception ''Invalid element ID %d, current range:[0; %d]'' [2, 2]) \<and>
   get_element two_slots 2 =
     Inl (Exception ''Invalid element ID %d, current range:[0; %d]'' [2, 2]) \<and>
   refine_element_id two_slots 1 0 = Inl (Exception ''Invalid element id number.'' []) \<and>
   refine_element_id two_slots 0 0 =
     Inl (Exception ''Attempt to refine element #%d which has been refined already.'' [0])"
  using refine_element_id_raises [of 0 2 two_slots] refine_element_id_raises [of 0 1 two_slots]
    refine_element_id_raises [of 0 0 two_slots]
  by (simp add: two_slots_def empty_Mesh_def new_Element_def)

text \<open>
  The claim as stated fails for the kind -1: the id 2 is outside a store of two slots,
  and the call returns the mesh.
\<close>

theorem refine_element_id_raises_counterexample:
  "int (length (elements two_slots)) \<le> 2 \<and> refine_element_id two_slots 2 (-1) = Inr two_slots"
  by (simp add: refine_element_id_def two_slots_def)

subsection \<open>The post-pass of \<open>regularize\<close> on curved elements\<close>

lemma upt_split: "e < n \<Longrightarrow> [0..<n] = [0..<e] @ e # [Suc e..<n]"
proof (induction n)
  case 0
  then show ?case by simp
next
  case (Suc n)
  show ?case
  proof (cases "e = n")
    case True
    then show ?thesis by simp
  next
    case False
    with Suc.prems have "e < n" by simp
    with Suc.IH show ?thesis by simp
  qed
qed

lemma rbind_assoc: "rbind (rbind x f) g = rbind x (\<lambda>v. rbind (f v) g)"
  by (simp add: rbind_def split: option.splits sum.splits)

lemma regularize_post_append:
  "regularize_post (xs @ ys) m = rbind (regularize_post xs m) (regularize_post ys)"
proof (induction xs arbitrary: m)
  case Nil
  show ?case by (simp add: rbind_def)
next
  case (Cons x xs)
  have "regularize_post (xs @ ys) = (\<lambda>v. rbind (regularize_post xs v) (regularize_post ys))"
    by (rule ext) (rule Cons.IH)
  then show ?case by (simp add: rbind_assoc rbind_Inl)
qed

lemma curved_triangle_active:
  "is_active (allocate_parents curved_triangle) 0"
  "is_curved (elements (allocate_parents curved_triangle) ! 0)"
  "0 < length (elements (allocate_parents curved_triangle))"
  supply [cong] = eval_cong
  by (simp_all add: curved_triangle_def eval_simps del: fold.simps)

lemma curved_triangle_loop:
  "regularize_loop 1 (allocate_parents curved_triangle) =
     Some (Inr (allocate_parents curved_triangle))"
  supply [cong] = eval_cong
  by (simp add: curved_triangle_def eval_simps del: fold.simps)

text \<open>
  C8, as the code has it. When \<open>regularize\<close> is called with \<open>n < 1\<close>, the balancing
  loop has returned, and the post-pass, having processed the elements before it, reaches
  an active curved element, the call raises the general \<open>Exception\<close> with the message
  that regularization of curved elements is not supported. The exception carries no
  element id.
\<close>

theorem regularize_curved_raises:
  assumes "n < 1"
    and "regularize_loop 1 (allocate_parents m) = Some (Inr m2)"
    and "e < length (elements m2)"
    and "regularize_post [0..<e] m2 = Some (Inr m3)"
    and "is_active m3 e"
    and "is_curved (elements m3 ! e)"
  shows "regularize m n =
           Some (Inl (Exception ''Regularization of curved elements is not supported.'' []))"
proof -
  have step: "regularize_post (e # [Suc e..<length (elements m2)]) m3 =
      Some (Inl (Exception ''Regularization of curved elements is not supported.'' []))"
    using assms(5,6) by simp
  have "regularize_post [0..<length (elements m2)] m2 =
      rbind (regularize_post [0..<e] m2) (regularize_post (e # [Suc e..<length (elements m2)]))"
    by (subst upt_split [OF assms(3)]) (rule regularize_post_append)
  also have "\<dots> = Some (Inl (Exception ''Regularization of curved elements is not supported.'' []))"
    by (simp only: assms(4) rbind_Inr step)
  finally have post: "regularize_post [0..<length (elements m2)] m2 =
      Some (Inl (Exception ''Regularization of curved elements is not supported.'' []))" .
  show ?thesis
    using assms(1) by (simp add: regularize_def assms(2) rbind_Inr post rbind_Inl)
qed

theorem regularize_curved_raises_witness:
  "regularize curved_triangle 0 =
     Some (Inl (Exception ''Regularization of curved elements is not supported.'' []))"
proof -
  have post: "regularize_post [0..<0] (allocate_parents curved_triangle) =
      Some (Inr (allocate_parents curved_triangle))"
    by simp
  show ?thesis
    by (rule regularize_curved_raises [OF _ curved_triangle_loop curved_triangle_active(3) post
          curved_triangle_active(1,2)]) simp
qed

text \<open>
  The claim as stated fails on the curved triangle: its only element is active and
  curved, and what the call raises is not a \<open>CurvedException\<close>.
\<close>

theorem regularize_curved_raises_counterexample:
  "is_active curved_triangle 0 \<and> is_curved (elements curved_triangle ! 0) \<and>
   regularize curved_triangle 0 =
     Some (Inl (Exception ''Regularization of curved elements is not supported.'' [])) \<and>
   regularize curved_triangle 0 \<noteq> Some (Inl (CurvedException 0))"
  supply [cong] = eval_cong
  by (simp add: curved_triangle_def regularize_def eval_simps del: fold.simps)

subsection \<open>The balancing loop of \<open>regularize\<close>\<close>










end
